theory Spec2Isabelle
  imports Main "HOL-Library.Sublist"
begin

section \<open>JSON values and the Python operations the scheduler applies to them\<close>

text \<open>
  Everything \<^verbatim>\<open>run_data_ingestion.py\<close> reads (the schedule, the files written by the
  external scripts, the answer of the document store) comes out of \<^verbatim>\<open>json.load\<close>.
  A Python \<^verbatim>\<open>dict\<close> is an association list in insertion order; the keys of a parsed
  JSON object are strings. JSON numbers are the integers: the schedule's schema has
  integer fields only, and the validators never look inside a number.
\<close>

datatype json =
    JNull
  | JBool bool
  | JInt int
  | JStr string
  | JArr "json list"
  | JObj "(string \<times> json) list"

type_synonym pydict = "(string \<times> json) list"

text \<open>Python's \<^verbatim>\<open>bool(x)\<close>.\<close>

fun truthy :: "json \<Rightarrow> bool" where
  "truthy JNull = False"
| "truthy (JBool b) = b"
| "truthy (JInt n) = (n \<noteq> 0)"
| "truthy (JStr s) = (s \<noteq> [])"
| "truthy (JArr xs) = (xs \<noteq> [])"
| "truthy (JObj kvs) = (kvs \<noteq> [])"

text \<open>\<^verbatim>\<open>d.get(k, default)\<close> on a dict.\<close>

definition dict_get :: "pydict \<Rightarrow> string \<Rightarrow> json \<Rightarrow> json" where
  "dict_get d k dflt = (case map_of d k of None \<Rightarrow> dflt | Some v \<Rightarrow> v)"

text \<open>\<^verbatim>\<open>d[k] = v\<close> on a dict: an existing key keeps its place, a new key goes last.\<close>

fun dict_set :: "pydict \<Rightarrow> string \<Rightarrow> json \<Rightarrow> pydict" where
  "dict_set [] k v = [(k, v)]"
| "dict_set ((k', v') # d) k v =
     (if k' = k then (k, v) # d else (k', v') # dict_set d k v)"

text \<open>
  The exceptions of the source. The named constructors are the \<^verbatim>\<open>raise\<close> statements of
  the program, one per site; \<open>Py\<close> wraps the exceptions that Python raises by itself
  (a missing key, a value of the wrong type, a process that cannot be started).
\<close>

datatype pyexc =
    KeyError | TypeError | AttributeError | IndexError | OverflowError | OSError
  | JSONDecodeError

datatype error =
    NotFound
  | ExecutionFailed
  | InvalidFormat
  | NotAnObject
  | MissingKey
  | UnexpectedField string
  | InvalidInsertShape string
  | InvalidUpdateShape string
  | ConfigError
  | BadIsoString
  | ConnectionFailed
  | HTTPError nat
  | CommitFailed
  | InvalidMode
  | DataFileNotFound
  | Py pyexc

text \<open>\<^verbatim>\<open>x[0]\<close>, \<^verbatim>\<open>x[k]\<close> for a string \<open>k\<close>, and \<^verbatim>\<open>k in x\<close> for a string \<open>k\<close>, on any value.\<close>

fun py_index0 :: "json \<Rightarrow> error + json" where
  "py_index0 (JArr []) = Inl (Py IndexError)"
| "py_index0 (JArr (x # xs)) = Inr x"
| "py_index0 (JStr []) = Inl (Py IndexError)"
| "py_index0 (JStr (c # cs)) = Inr (JStr [c])"
| "py_index0 (JObj kvs) = Inl (Py KeyError)"
| "py_index0 JNull = Inl (Py TypeError)"
| "py_index0 (JBool b) = Inl (Py TypeError)"
| "py_index0 (JInt n) = Inl (Py TypeError)"

fun py_getitem :: "json \<Rightarrow> string \<Rightarrow> error + json" where
  "py_getitem (JObj kvs) k =
     (case map_of kvs k of None \<Rightarrow> Inl (Py KeyError) | Some v \<Rightarrow> Inr v)"
| "py_getitem JNull k = Inl (Py TypeError)"
| "py_getitem (JBool b) k = Inl (Py TypeError)"
| "py_getitem (JInt n) k = Inl (Py TypeError)"
| "py_getitem (JStr s) k = Inl (Py TypeError)"
| "py_getitem (JArr xs) k = Inl (Py TypeError)"

fun py_in :: "string \<Rightarrow> json \<Rightarrow> error + bool" where
  "py_in k (JObj kvs) = Inr (map_of kvs k \<noteq> None)"
| "py_in k (JArr xs) = Inr (JStr k \<in> set xs)"
| "py_in k (JStr s) = Inr (sublist k s)"
| "py_in k JNull = Inl (Py TypeError)"
| "py_in k (JBool b) = Inl (Py TypeError)"
| "py_in k (JInt n) = Inl (Py TypeError)"

section \<open>Scheduling policy\<close>

text \<open>
  A \<^verbatim>\<open>datetime\<close> is a count of microseconds since 0001-01-01T00:00:00, naive or with a
  UTC offset; the representable ones lie in \<open>[0, MAX_US)\<close> (years 1 to 9999).
  \<^verbatim>\<open>datetime.fromisoformat\<close> is a parameter: \<open>None\<close> where it raises \<^verbatim>\<open>ValueError\<close>.
\<close>

datatype pydatetime = Naive int | Aware int int

definition DAY_US :: int where
  "DAY_US = 86400000000"

definition MAX_US :: int where
  "MAX_US = 3652059 * DAY_US"

text \<open>\<^verbatim>\<open>datetime.timedelta(days=d)\<close>, in microseconds.\<close>

fun timedelta_days :: "json \<Rightarrow> error + int" where
  "timedelta_days (JInt n) =
     (if - 999999999 \<le> n \<and> n \<le> 999999999 then Inr (n * DAY_US) else Inl (Py OverflowError))"
| "timedelta_days (JBool b) = Inr (if b then DAY_US else 0)"
| "timedelta_days JNull = Inl (Py TypeError)"
| "timedelta_days (JStr s) = Inl (Py TypeError)"
| "timedelta_days (JArr xs) = Inl (Py TypeError)"
| "timedelta_days (JObj kvs) = Inl (Py TypeError)"

text \<open>\<^verbatim>\<open>dt + delta\<close>.\<close>

fun datetime_add :: "pydatetime \<Rightarrow> int \<Rightarrow> error + pydatetime" where
  "datetime_add (Naive t) d =
     (if 0 \<le> t + d \<and> t + d < MAX_US then Inr (Naive (t + d)) else Inl (Py OverflowError))"
| "datetime_add (Aware t off) d =
     (if 0 \<le> t + d \<and> t + d < MAX_US then Inr (Aware (t + d) off) else Inl (Py OverflowError))"

definition get_next_run_date :: "(string \<Rightarrow> pydatetime option) \<Rightarrow> pydict \<Rightarrow> error + pydatetime" where
  "get_next_run_date fromisoformat script_meta =
     (case map_of script_meta ''last_run'' of
        None \<Rightarrow> Inl (Py KeyError)
      | Some (JStr s) \<Rightarrow>
          (case fromisoformat s of
             None \<Rightarrow> Inl BadIsoString
           | Some last_run_date \<Rightarrow>
               (case map_of script_meta ''interval_days'' of
                  None \<Rightarrow> Inl (Py KeyError)
                | Some d \<Rightarrow>
                    (case timedelta_days d of
                       Inl e \<Rightarrow> Inl e
                     | Inr delta \<Rightarrow> datetime_add last_run_date delta)))
      | Some _ \<Rightarrow> Inl (Py TypeError))"

text \<open>
  The reason of a run record. The source stores a string: \<^verbatim>\<open>"not scheduled"\<close>,
  \<^verbatim>\<open>"disabled"\<close>, \<^verbatim>\<open>"no script_file"\<close>, \<^verbatim>\<open>"Forced execution"\<close>,
  \<^verbatim>\<open>next_run_date.isoformat()\<close>, or \<^verbatim>\<open>str(e)\<close> of the exception caught.
\<close>

datatype reason =
    NotScheduled
  | Disabled
  | NoScriptFile
  | Forced
  | NextRun pydatetime
  | Exc error

text \<open>
  \<open>should_run\<close>; the value of \<^verbatim>\<open>datetime.datetime.now()\<close> is the argument \<open>now\<close>.
  Comparing a naive \<open>now\<close> with an offset-aware date raises \<^verbatim>\<open>TypeError\<close>.
\<close>

definition should_run :: "(string \<Rightarrow> pydatetime option) \<Rightarrow> int \<Rightarrow> pydict \<Rightarrow> error + (bool \<times> reason)" where
  "should_run fromisoformat now script_meta =
     (if truthy (dict_get script_meta ''force_run'' (JBool False)) then Inr (True, Forced)
      else
        (case get_next_run_date fromisoformat script_meta of
           Inl e \<Rightarrow> Inl e
         | Inr (Naive t) \<Rightarrow> Inr (t \<le> now, NextRun (Naive t))
         | Inr (Aware t off) \<Rightarrow> Inl (Py TypeError)))"

section \<open>Document validator\<close>

text \<open>
  A file either holds text that \<^verbatim>\<open>json.load\<close> rejects or a JSON value; the file system
  maps a path to the file there, if any.
\<close>

datatype filedata = NotJson | Json json

type_synonym filesystem = "string \<Rightarrow> filedata option"

definition validate_json :: "filesystem \<Rightarrow> string \<Rightarrow> error + json list" where
  "validate_json files file_path =
     (case files file_path of
        Some (Json (JArr docs)) \<Rightarrow> Inr docs
      | _ \<Rightarrow> Inl InvalidFormat)"

definition UPDATE_OPS :: "string list" where
  "UPDATE_OPS = [''set'', ''add'', ''remove'', ''inc'']"

text \<open>\<^verbatim>\<open>any(op in value for op in ["set", "add", "remove", "inc"])\<close> on a dict.\<close>

definition has_operator :: "pydict \<Rightarrow> bool" where
  "has_operator d = list_ex (\<lambda>op. map_of d op \<noteq> None) UPDATE_OPS"

text \<open>
  \<^verbatim>\<open>unique_key in doc\<close> for a dict \<open>doc\<close>: lists and dicts are unhashable, and a key that
  is not a string is never a key of a parsed JSON object.
\<close>

fun key_in_doc :: "json \<Rightarrow> pydict \<Rightarrow> error + bool" where
  "key_in_doc (JStr k) doc = Inr (map_of doc k \<noteq> None)"
| "key_in_doc (JArr xs) doc = Inl (Py TypeError)"
| "key_in_doc (JObj kvs) doc = Inl (Py TypeError)"
| "key_in_doc JNull doc = Inr False"
| "key_in_doc (JBool b) doc = Inr False"
| "key_in_doc (JInt n) doc = Inr False"

fun insert_fields :: "pydict \<Rightarrow> error + unit" where
  "insert_fields [] = Inr ()"
| "insert_fields ((field, JObj d) # rest) =
     (if has_operator d then Inl (InvalidInsertShape field) else insert_fields rest)"
| "insert_fields ((field, v) # rest) = insert_fields rest"

fun insert_docs :: "json \<Rightarrow> json list \<Rightarrow> error + unit" where
  "insert_docs unique_key [] = Inr ()"
| "insert_docs unique_key (JObj doc # docs) =
     (case key_in_doc unique_key doc of
        Inl e \<Rightarrow> Inl e
      | Inr False \<Rightarrow> Inl MissingKey
      | Inr True \<Rightarrow>
          (case insert_fields doc of
             Inl e \<Rightarrow> Inl e
           | Inr u \<Rightarrow> insert_docs unique_key docs))"
| "insert_docs unique_key (v # docs) = Inl NotAnObject"

definition validate_solr_insert_file :: "filesystem \<Rightarrow> string \<Rightarrow> json \<Rightarrow> error + unit" where
  "validate_solr_insert_file files file_path unique_key =
     (case validate_json files file_path of
        Inl e \<Rightarrow> Inl e
      | Inr docs \<Rightarrow> insert_docs unique_key docs)"

fun update_fields :: "json \<Rightarrow> json \<Rightarrow> pydict \<Rightarrow> error + unit" where
  "update_fields allowed_fields unique_key [] = Inr ()"
| "update_fields allowed_fields unique_key ((field, v) # rest) =
     (if JStr field = unique_key then update_fields allowed_fields unique_key rest
      else
        (case py_in field allowed_fields of
           Inl e \<Rightarrow> Inl e
         | Inr False \<Rightarrow> Inl (UnexpectedField field)
         | Inr True \<Rightarrow>
             (case v of
                JObj d \<Rightarrow>
                  (if has_operator d then update_fields allowed_fields unique_key rest
                   else Inl (InvalidUpdateShape field))
              | _ \<Rightarrow> Inl (InvalidUpdateShape field))))"

fun update_docs :: "json \<Rightarrow> json \<Rightarrow> json list \<Rightarrow> error + unit" where
  "update_docs allowed_fields unique_key [] = Inr ()"
| "update_docs allowed_fields unique_key (JObj doc # docs) =
     (case key_in_doc unique_key doc of
        Inl e \<Rightarrow> Inl e
      | Inr False \<Rightarrow> Inl MissingKey
      | Inr True \<Rightarrow>
          (case update_fields allowed_fields unique_key doc of
             Inl e \<Rightarrow> Inl e
           | Inr u \<Rightarrow> update_docs allowed_fields unique_key docs))"
| "update_docs allowed_fields unique_key (v # docs) = Inl NotAnObject"

definition validate_solr_update_file :: "filesystem \<Rightarrow> string \<Rightarrow> json \<Rightarrow> json \<Rightarrow> error + json list" where
  "validate_solr_update_file files file_path allowed_fields unique_key =
     (case validate_json files file_path of
        Inl e \<Rightarrow> Inl e
      | Inr docs \<Rightarrow>
          (case update_docs allowed_fields unique_key docs of
             Inl e \<Rightarrow> Inl e
           | Inr u \<Rightarrow> Inr docs))"

section \<open>The world outside the program\<close>

text \<open>
  The program talks to its surroundings through \<^verbatim>\<open>datetime.now\<close>, \<^verbatim>\<open>subprocess.run\<close>
  (the external script, the commit tool \<^verbatim>\<open>p3-solr-insert\<close>), \<^verbatim>\<open>requests.post\<close> and the
  file system. What the surroundings answer is a parameter: each answer may depend on
  the arguments of the call and on \<open>tick\<close>, the number of calls made so far, so that two
  calls need not agree. The external script may rewrite the file system in any way;
  the commit tool talks to the document store only. A started process ends with an
  exit code or cannot be started at all (\<^verbatim>\<open>OSError\<close>). The file system itself is
  reliable: creating, writing and unlinking a file do what they say.
\<close>

datatype proc_outcome = Exited int | SpawnFailed

datatype http_result = NoConnection | Response nat filedata

text \<open>
  The calls made, in order. \<open>EvPost core_name unique_key ids\<close> is the one query
  \<^verbatim>\<open>q = f"{unique_key}:({' OR '.join(ids)})"\<close> with \<^verbatim>\<open>rows = len(ids)\<close> posted to
  \<^verbatim>\<open>f"{BVBRC_API_URL}/{core_name}"\<close>; \<open>EvCommit mode core_name data_file\<close> is the command
  \<^verbatim>\<open>["p3-solr-insert", f"--{mode}", core_name, str(data_file)]\<close>.
\<close>

datatype event =
    EvRun "string list" proc_outcome
  | EvPost json json "string list" http_result
  | EvBackupSaved string json
  | EvCommit string string string proc_outcome
  | EvSaveSchedule pydict

record env =
  clock :: "nat \<Rightarrow> int"
  fromisoformat :: "string \<Rightarrow> pydatetime option"
  strftime_day :: "int \<Rightarrow> string"
  run_script :: "nat \<Rightarrow> string list \<Rightarrow> filesystem \<Rightarrow> proc_outcome \<times> filesystem"
  http_post :: "nat \<Rightarrow> json \<Rightarrow> json \<Rightarrow> string list \<Rightarrow> http_result"
  run_commit_tool :: "nat \<Rightarrow> string \<Rightarrow> string \<Rightarrow> string \<Rightarrow> proc_outcome"

datatype status = Skipped | Success | Failure

record run_record =
  rr_script :: string
  rr_run_time :: int
  rr_status :: status
  rr_reason :: reason
  rr_insert_file :: "string option"
  rr_update_file :: "string option"
  rr_backup_file :: "string option"

text \<open>
  \<^verbatim>\<open>RUN_HISTORY_FILE\<close>: absent, not JSON, JSON that is not an array, or the array of the
  records written so far.
\<close>

datatype history_file = HistAbsent | HistCorrupt | HistNotList | HistList "run_record list"

text \<open>
  The state the program works on: the files under the working directory (scripts,
  outputs, logs, backups), the schedule held in memory by \<open>main\<close>, \<^verbatim>\<open>SCHEDULE_FILE\<close>,
  \<^verbatim>\<open>RUN_HISTORY_FILE\<close>, and the calls made so far. The two state files are kept apart
  from \<open>files\<close>: the external script is trusted to leave them alone.
\<close>

record world =
  files :: filesystem
  schedule :: pydict
  schedule_file :: "filedata option"
  history :: history_file
  trace :: "event list"
  tick :: nat

definition bump :: "world \<Rightarrow> world" where
  "bump w = w\<lparr>tick := Suc (tick w)\<rparr>"

definition emit :: "event \<Rightarrow> world \<Rightarrow> world" where
  "emit ev w = w\<lparr>trace := trace w @ [ev]\<rparr>"

section \<open>Schedule store and run history\<close>

definition append_run_history :: "run_record \<Rightarrow> world \<Rightarrow> error + world" where
  "append_run_history entry w =
     (case history w of
        HistAbsent \<Rightarrow> Inr (w\<lparr>history := HistList [entry]\<rparr>)
      | HistCorrupt \<Rightarrow> Inr (w\<lparr>history := HistList [entry]\<rparr>)
      | HistNotList \<Rightarrow> Inl (Py AttributeError)
      | HistList h \<Rightarrow> Inr (w\<lparr>history := HistList (h @ [entry])\<rparr>))"

definition load_schedule :: "world \<Rightarrow> json" where
  "load_schedule w =
     (case schedule_file w of
        None \<Rightarrow> JObj []
      | Some NotJson \<Rightarrow> JObj []
      | Some (Json j) \<Rightarrow> j)"

definition save_schedule :: "pydict \<Rightarrow> world \<Rightarrow> world" where
  "save_schedule sched w = emit (EvSaveSchedule sched) (w\<lparr>schedule_file := Some (Json (JObj sched))\<rparr>)"

text \<open>
  \<open>update_run_date\<close>: \<^verbatim>\<open>schedule["scripts"][script_name]["last_run"] = timestamp\<close>, then
  \<open>save_schedule\<close>. The line that would reset \<^verbatim>\<open>force_run\<close> is a comment in the source.
\<close>

definition update_run_date :: "string \<Rightarrow> string \<Rightarrow> world \<Rightarrow> error + world" where
  "update_run_date script_name timestamp w =
     (case map_of (schedule w) ''scripts'' of
        None \<Rightarrow> Inl (Py KeyError)
      | Some (JObj scripts) \<Rightarrow>
          (case map_of scripts script_name of
             None \<Rightarrow> Inl (Py KeyError)
           | Some (JObj script_meta) \<Rightarrow>
               (let sched = dict_set (schedule w) ''scripts''
                              (JObj (dict_set scripts script_name
                                (JObj (dict_set script_meta ''last_run'' (JStr timestamp)))))
                in Inr (save_schedule sched (w\<lparr>schedule := sched\<rparr>)))
           | Some _ \<Rightarrow> Inl (Py TypeError))
      | Some _ \<Rightarrow> Inl (Py TypeError))"

section \<open>Job runner\<close>

text \<open>
  Paths are strings and \<^verbatim>\<open>/\<close> on paths puts a separator between them. Directories are
  not files: \<^verbatim>\<open>mkdir\<close> leaves \<open>files\<close> as it is.
\<close>

definition path_join :: "string \<Rightarrow> string \<Rightarrow> string" where
  "path_join d f = d @ ''/'' @ f"

definition SCRIPTS_DIR :: string where
  "SCRIPTS_DIR = ''scripts''"

definition BACKUP_DIR :: string where
  "BACKUP_DIR = ''backup''"

definition OUTPUT_BASE_DIR :: string where
  "OUTPUT_BASE_DIR = ''data/output''"

definition create_output_dir :: "string \<Rightarrow> string \<Rightarrow> string" where
  "create_output_dir run_date script_name = path_join (path_join OUTPUT_BASE_DIR run_date) script_name"

definition create_backup_dir :: "string \<Rightarrow> string \<Rightarrow> string" where
  "create_backup_dir run_date script_name = path_join (path_join BACKUP_DIR run_date) script_name"

text \<open>
  The clean-up loop of \<open>execute_script\<close> after a failed run: each output file that exists
  is unlinked. (The source guards the unlink with a handler that logs a warning and
  goes on; on a reliable file system the handler is not entered.)
\<close>

fun remove_incomplete :: "string option list \<Rightarrow> world \<Rightarrow> world" where
  "remove_incomplete [] w = w"
| "remove_incomplete (None # rest) w = remove_incomplete rest w"
| "remove_incomplete (Some f # rest) w =
     (if files w f \<noteq> None
      then remove_incomplete rest (w\<lparr>files := (files w)(f := None)\<rparr>)
      else remove_incomplete rest w)"

definition execute_script ::
  "env \<Rightarrow> string \<Rightarrow> json \<Rightarrow> json \<Rightarrow> bool \<Rightarrow> bool \<Rightarrow> world
     \<Rightarrow> (error + (string option \<times> string option)) \<times> world" where
  "execute_script env script_name script_file last_run_date has_insert has_update w =
     (case script_file of
        JStr sf \<Rightarrow>
          (let script_path = path_join SCRIPTS_DIR sf in
           if files w script_path = None then (Inl NotFound, w)
           else
             (let today = strftime_day env (clock env (tick w));
                  w1 = bump w;
                  output_dir = create_output_dir today script_name;
                  output_insert_file =
                    (if has_insert then Some (path_join output_dir (script_name @ ''_insert.json''))
                     else None);
                  output_update_file =
                    (if has_update then Some (path_join output_dir (script_name @ ''_update.json''))
                     else None);
                  log_file_path = path_join output_dir (script_name @ ''.log'')
              in
                (case last_run_date of
                   JStr d \<Rightarrow>
                     (let command =
                            [script_path, ''--date'', d, ''--work_dir'', output_dir]
                            @ (case output_insert_file of
                                 Some f \<Rightarrow> [''--insert_file'', f] | None \<Rightarrow> [])
                            @ (case output_update_file of
                                 Some f \<Rightarrow> [''--update_file'', f] | None \<Rightarrow> []);
                          started = (files w1)(log_file_path \<mapsto> NotJson);
                          (res, files2) = run_script env (tick w1) command started;
                          w2 = bump (emit (EvRun command res) (w1\<lparr>files := files2\<rparr>))
                      in
                        (case res of
                           Exited c \<Rightarrow>
                             (if c = 0 then (Inr (output_insert_file, output_update_file), w2)
                              else (Inl ExecutionFailed,
                                    remove_incomplete [output_insert_file, output_update_file] w2))
                         | SpawnFailed \<Rightarrow> (Inl (Py OSError), w2)))
                 | _ \<Rightarrow> (Inl (Py TypeError), w1))))
      | _ \<Rightarrow> (Inl (Py TypeError), w))"

section \<open>Backup manager and commit gateway\<close>

text \<open>The arguments of \<^verbatim>\<open>' OR '.join(ids)\<close>: every one must be a string.\<close>

fun str_ids :: "json list \<Rightarrow> string list option" where
  "str_ids [] = Some []"
| "str_ids (JStr s # rest) = map_option ((#) s) (str_ids rest)"
| "str_ids (v # rest) = None"

text \<open>Whether \<^verbatim>\<open>len(x)\<close> is defined.\<close>

fun has_len :: "json \<Rightarrow> bool" where
  "has_len (JArr xs) = True"
| "has_len (JStr s) = True"
| "has_len (JObj kvs) = True"
| "has_len v = False"

text \<open>\<^verbatim>\<open>x.get(k, default)\<close> on any value: only a dict has the method.\<close>

fun py_get :: "json \<Rightarrow> string \<Rightarrow> json \<Rightarrow> error + json" where
  "py_get (JObj kvs) k dflt = Inr (dict_get kvs k dflt)"
| "py_get v k dflt = Inl (Py AttributeError)"

definition backup_solr_docs ::
  "env \<Rightarrow> string \<Rightarrow> json \<Rightarrow> json \<Rightarrow> json list \<Rightarrow> world \<Rightarrow> (error + unit) \<times> world" where
  "backup_solr_docs env backup_file core_name unique_key ids w =
     (case str_ids ids of
        None \<Rightarrow> (Inl (Py TypeError), w)
      | Some sids \<Rightarrow>
          (let resp = http_post env (tick w) core_name unique_key sids;
               w1 = bump (emit (EvPost core_name unique_key sids resp) w)
           in
             (case resp of
                NoConnection \<Rightarrow> (Inl ConnectionFailed, w1)
              | Response st body \<Rightarrow>
                  (if 400 \<le> st \<and> st < 600 then (Inl (HTTPError st), w1)
                   else
                     (case body of
                        NotJson \<Rightarrow> (Inl (Py JSONDecodeError), w1)
                      | Json j \<Rightarrow>
                          (case py_get j ''response'' (JObj []) of
                             Inl e \<Rightarrow> (Inl e, w1)
                           | Inr r \<Rightarrow>
                               (case py_get r ''docs'' (JArr []) of
                                  Inl e \<Rightarrow> (Inl e, w1)
                                | Inr docs \<Rightarrow>
                                    (let w2 = emit (EvBackupSaved backup_file docs)
                                                (w1\<lparr>files := (files w1)(backup_file \<mapsto> Json docs)\<rparr>)
                                     in if has_len docs then (Inr (), w2)
                                        else (Inl (Py TypeError), w2)))))))))"

definition commit_solr_changes ::
  "env \<Rightarrow> json \<Rightarrow> string \<Rightarrow> string \<Rightarrow> world \<Rightarrow> (error + unit) \<times> world" where
  "commit_solr_changes env core_name data_file mode w =
     (if mode \<notin> set [''insert'', ''update''] then (Inl InvalidMode, w)
      else if files w data_file = None then (Inl DataFileNotFound, w)
      else
        (case core_name of
           JStr core \<Rightarrow>
             (let res = run_commit_tool env (tick w) mode core data_file;
                  w1 = bump (emit (EvCommit mode core data_file res) w)
              in
                (case res of
                   Exited c \<Rightarrow> (if c = 0 then (Inr (), w1) else (Inl CommitFailed, w1))
                 | SpawnFailed \<Rightarrow> (Inl (Py OSError), w1)))
         | _ \<Rightarrow> (Inl (Py TypeError), w)))"

section \<open>Orchestrator\<close>

text \<open>
  The variables of one iteration of the loop of \<open>main\<close> that the \<^verbatim>\<open>finally\<close> block reads,
  and the three ways the \<^verbatim>\<open>try\<close> block ends: it runs to its last statement, it leaves
  through \<^verbatim>\<open>continue\<close>, or an exception is raised.
\<close>

record job_vars =
  insert_file :: "string option"
  update_file :: "string option"
  backup_file :: "string option"
  status :: status
  reason :: reason

datatype outcome = Completed | Continued | Raised error

definition initial_vars :: job_vars where
  "initial_vars =
     \<lparr>insert_file = None, update_file = None, backup_file = None,
      status = Skipped, reason = NotScheduled\<rparr>"

text \<open>
  The first target of a direction with its key: \<^verbatim>\<open>script_meta.get(k, [])[0]\<close>, the test
  \<^verbatim>\<open>"key" not in conf\<close> (which raises \<^verbatim>\<open>KeyError\<close>, here \<open>ConfigError\<close>) and \<^verbatim>\<open>conf["key"]\<close>.
\<close>

definition first_target :: "pydict \<Rightarrow> string \<Rightarrow> error + json" where
  "first_target script_meta k = py_index0 (dict_get script_meta k (JArr []))"

definition target_key :: "json \<Rightarrow> error + json" where
  "target_key conf =
     (case py_in ''key'' conf of
        Inl e \<Rightarrow> Inl e
      | Inr False \<Rightarrow> Inl ConfigError
      | Inr True \<Rightarrow> py_getitem conf ''key'')"

text \<open>Lines 336 to 341: the insert file, when there is one, is validated.\<close>

definition check_insert :: "pydict \<Rightarrow> job_vars \<Rightarrow> world \<Rightarrow> error + unit" where
  "check_insert script_meta v w =
     (case insert_file v of
        None \<Rightarrow> Inr ()
      | Some f \<Rightarrow>
          (if files w f = None then Inr ()
           else
             (case first_target script_meta ''solr_insert'' of
                Inl e \<Rightarrow> Inl e
              | Inr insert_conf \<Rightarrow>
                  (case target_key insert_conf of
                     Inl e \<Rightarrow> Inl e
                   | Inr k \<Rightarrow> validate_solr_insert_file (files w) f k))))"

text \<open>\<^verbatim>\<open>[doc[unique_key] for doc in docs if unique_key in doc]\<close> on validated documents.\<close>

fun doc_ids :: "json \<Rightarrow> json list \<Rightarrow> json list" where
  "doc_ids unique_key [] = []"
| "doc_ids (JStr k) (JObj doc # docs) =
     (case map_of doc k of
        None \<Rightarrow> doc_ids (JStr k) docs
      | Some v \<Rightarrow> v # doc_ids (JStr k) docs)"
| "doc_ids unique_key (v # docs) = doc_ids unique_key docs"

text \<open>
  Lines 343 to 359: the update file, when there is one, is validated and the documents
  it names are backed up. \<open>backup_file\<close> is assigned before the backup is fetched.
\<close>

definition check_update_and_backup ::
  "env \<Rightarrow> string \<Rightarrow> pydict \<Rightarrow> int \<Rightarrow> job_vars \<Rightarrow> world \<Rightarrow> (error + unit) \<times> job_vars \<times> world" where
  "check_update_and_backup env script_name script_meta run_time v w =
     (case update_file v of
        None \<Rightarrow> (Inr (), v, w)
      | Some f \<Rightarrow>
          (if files w f = None then (Inr (), v, w)
           else
             (case first_target script_meta ''solr_update'' of
                Inl e \<Rightarrow> (Inl e, v, w)
              | Inr update_conf \<Rightarrow>
                  (case target_key update_conf of
                     Inl e \<Rightarrow> (Inl e, v, w)
                   | Inr unique_key \<Rightarrow>
                       (case py_get update_conf ''fields'' (JArr []) of
                          Inl e \<Rightarrow> (Inl e, v, w)
                        | Inr allowed_fields \<Rightarrow>
                            (case validate_solr_update_file (files w) f allowed_fields unique_key of
                               Inl e \<Rightarrow> (Inl e, v, w)
                             | Inr docs \<Rightarrow>
                                 (case py_getitem update_conf ''core_name'' of
                                    Inl e \<Rightarrow> (Inl e, v, w)
                                  | Inr core_name \<Rightarrow>
                                      (let ids = doc_ids unique_key docs;
                                           today = strftime_day env run_time;
                                           backup_dir = create_backup_dir today script_name;
                                           bf = path_join backup_dir (script_name @ ''_backup.json'');
                                           v1 = v\<lparr>backup_file := Some bf\<rparr>;
                                           (r, w1) = backup_solr_docs env bf core_name unique_key ids w
                                       in (r, v1, w1)))))))))"

text \<open>
  Lines 364 to 373. The two blocks of the source differ in the direction only:
  \<open>commit_file\<close> is one of them.
\<close>

definition commit_file ::
  "env \<Rightarrow> pydict \<Rightarrow> string \<Rightarrow> string \<Rightarrow> string option \<Rightarrow> world \<Rightarrow> (error + unit) \<times> world" where
  "commit_file env script_meta target mode data_file w =
     (case data_file of
        None \<Rightarrow> (Inr (), w)
      | Some f \<Rightarrow>
          (if files w f = None then (Inr (), w)
           else
             (case first_target script_meta target of
                Inl e \<Rightarrow> (Inl e, w)
              | Inr conf \<Rightarrow>
                  (case py_getitem conf ''core_name'' of
                     Inl e \<Rightarrow> (Inl e, w)
                   | Inr core_name \<Rightarrow> commit_solr_changes env core_name f mode w))))"

definition commit_phase ::
  "env \<Rightarrow> json \<Rightarrow> pydict \<Rightarrow> job_vars \<Rightarrow> world \<Rightarrow> (error + unit) \<times> world" where
  "commit_phase env settings script_meta v w =
     (case py_get settings ''commit_solr'' (JBool False) of
        Inl e \<Rightarrow> (Inl e, w)
      | Inr flag \<Rightarrow>
          (if truthy flag then
             (case commit_file env script_meta ''solr_insert'' ''insert'' (insert_file v) w of
                (Inl e, w1) \<Rightarrow> (Inl e, w1)
              | (Inr u, w1) \<Rightarrow>
                  commit_file env script_meta ''solr_update'' ''update'' (update_file v) w1)
           else (Inr (), w)))"

text \<open>Lines 364 to 376: the commits, then the new \<^verbatim>\<open>last_run\<close> and the status.\<close>

definition finish_job ::
  "env \<Rightarrow> json \<Rightarrow> string \<Rightarrow> pydict \<Rightarrow> int \<Rightarrow> job_vars \<Rightarrow> world \<Rightarrow> outcome \<times> job_vars \<times> world" where
  "finish_job env settings script_name script_meta run_time v w =
     (case commit_phase env settings script_meta v w of
        (Inl e, w1) \<Rightarrow> (Raised e, v, w1)
      | (Inr u, w1) \<Rightarrow>
          (case update_run_date script_name (strftime_day env run_time) w1 of
             Inl e \<Rightarrow> (Raised e, v, w1)
           | Inr w2 \<Rightarrow> (Completed, v\<lparr>status := Success\<rparr>, w2)))"

text \<open>Lines 336 to 376: what follows the return of \<open>execute_script\<close>.\<close>

definition after_run ::
  "env \<Rightarrow> json \<Rightarrow> string \<Rightarrow> pydict \<Rightarrow> int \<Rightarrow> job_vars \<Rightarrow> world \<Rightarrow> outcome \<times> job_vars \<times> world" where
  "after_run env settings script_name script_meta run_time v w =
     (case check_insert script_meta v w of
        Inl e \<Rightarrow> (Raised e, v, w)
      | Inr u \<Rightarrow>
          (case check_update_and_backup env script_name script_meta run_time v w of
             (Inl e, v1, w1) \<Rightarrow> (Raised e, v1, w1)
           | (Inr u, v1, w1) \<Rightarrow> finish_job env settings script_name script_meta run_time v1 w1))"

text \<open>Lines 309 to 376: the \<^verbatim>\<open>try\<close> block.\<close>

definition try_block ::
  "env \<Rightarrow> json \<Rightarrow> string \<Rightarrow> pydict \<Rightarrow> int \<Rightarrow> job_vars \<Rightarrow> world \<Rightarrow> outcome \<times> job_vars \<times> world" where
  "try_block env settings script_name script_meta run_time v w =
     (if truthy (dict_get script_meta ''disabled'' (JBool True))
      then (Continued, v\<lparr>reason := Disabled\<rparr>, w)
      else
        (let script_file = dict_get script_meta ''script_file'' JNull in
         if \<not> truthy script_file then (Continued, v\<lparr>reason := NoScriptFile\<rparr>, w)
         else
           (case should_run (fromisoformat env) (clock env (tick w)) script_meta of
              Inl e \<Rightarrow> (Raised e, v, bump w)
            | Inr (should_execute, r) \<Rightarrow>
                (let v1 = v\<lparr>reason := r\<rparr>; w1 = bump w in
                 if \<not> should_execute then (Continued, v1, w1)
                 else
                   (let has_insert = truthy (dict_get script_meta ''solr_insert'' JNull);
                        has_update = truthy (dict_get script_meta ''solr_update'' JNull)
                    in
                      (case map_of script_meta ''last_run'' of
                         None \<Rightarrow> (Raised (Py KeyError), v1, w1)
                       | Some last_run \<Rightarrow>
                           (case execute_script env script_name script_file last_run
                                   has_insert has_update w1 of
                              (Inl e, w2) \<Rightarrow> (Raised e, v1, w2)
                            | (Inr (ins, upd), w2) \<Rightarrow>
                                after_run env settings script_name script_meta run_time
                                  (v1\<lparr>insert_file := ins, update_file := upd\<rparr>) w2)))))))"

text \<open>
  One iteration of the loop: the \<^verbatim>\<open>try\<close> block, the \<^verbatim>\<open>except Exception\<close> handler and the
  \<^verbatim>\<open>finally\<close> block. A descriptor that is not a dict has no \<^verbatim>\<open>get\<close>. The result is \<open>Inl\<close>
  when an exception leaves the iteration, and with it \<open>main\<close>.
\<close>

definition run_job ::
  "env \<Rightarrow> json \<Rightarrow> string \<Rightarrow> json \<Rightarrow> world \<Rightarrow> outcome \<times> job_vars \<times> world" where
  "run_job env settings script_name script_meta w =
     (let run_time = clock env (tick w); w0 = bump w in
      case script_meta of
        JObj m \<Rightarrow> try_block env settings script_name m run_time initial_vars w0
      | _ \<Rightarrow> (Raised (Py AttributeError), initial_vars, w0))"

definition handle :: "outcome \<Rightarrow> job_vars \<Rightarrow> job_vars" where
  "handle out v = (case out of Raised e \<Rightarrow> v\<lparr>status := Failure, reason := Exc e\<rparr> | _ \<Rightarrow> v)"

definition make_record :: "string \<Rightarrow> int \<Rightarrow> job_vars \<Rightarrow> run_record" where
  "make_record script_name run_time v =
     \<lparr>rr_script = script_name, rr_run_time = run_time, rr_status = status v,
      rr_reason = reason v, rr_insert_file = insert_file v,
      rr_update_file = update_file v, rr_backup_file = backup_file v\<rparr>"

definition process_job :: "env \<Rightarrow> json \<Rightarrow> string \<Rightarrow> json \<Rightarrow> world \<Rightarrow> error + world" where
  "process_job env settings script_name script_meta w =
     (case run_job env settings script_name script_meta w of
        (out, v, w1) \<Rightarrow>
          append_run_history (make_record script_name (clock env (tick w)) (handle out v)) w1)"

text \<open>
  The loop over \<^verbatim>\<open>scripts.items()\<close>. An iteration changes no descriptor but its own, at
  its end, so the descriptors are those of the schedule as loaded.
\<close>

fun main_loop :: "env \<Rightarrow> json \<Rightarrow> (string \<times> json) list \<Rightarrow> world \<Rightarrow> error + world" where
  "main_loop env settings [] w = Inr w"
| "main_loop env settings ((script_name, script_meta) # rest) w =
     (case process_job env settings script_name script_meta w of
        Inl e \<Rightarrow> Inl e
      | Inr w1 \<Rightarrow> main_loop env settings rest w1)"

definition main :: "env \<Rightarrow> world \<Rightarrow> error + world" where
  "main env w =
     (let sched = load_schedule w in
      if \<not> truthy sched then Inr w
      else
        (case sched of
           JObj root \<Rightarrow>
             (let settings = dict_get root ''settings'' (JObj []);
                  scripts = dict_get root ''scripts'' (JObj [])
              in if \<not> truthy scripts then Inr w
                 else
                   (case scripts of
                      JObj jobs \<Rightarrow> main_loop env settings jobs (w\<lparr>schedule := root\<rparr>)
                    | _ \<Rightarrow> Inl (Py AttributeError)))
         | _ \<Rightarrow> Inl (Py AttributeError)))"

section \<open>The specification's words\<close>

text \<open>
  The conditions the specification puts on documents, written after its sentences, to
  be compared with what the validators compute. An operator object is an object with
  at least one of the four update operators among its keys.
\<close>

definition operator_object :: "json \<Rightarrow> bool" where
  "operator_object v = (case v of JObj d \<Rightarrow> (\<exists>op \<in> set UPDATE_OPS. op \<in> fst ` set d) | _ \<Rightarrow> False)"

definition update_doc_ok :: "string list \<Rightarrow> string \<Rightarrow> json \<Rightarrow> bool" where
  "update_doc_ok allowed k doc =
     (case doc of
        JObj d \<Rightarrow> k \<in> fst ` set d \<and>
                  (\<forall>(f, v) \<in> set d. f \<noteq> k \<longrightarrow> f \<in> set allowed \<and> operator_object v)
      | _ \<Rightarrow> False)"

definition insert_doc_ok :: "string \<Rightarrow> json \<Rightarrow> bool" where
  "insert_doc_ok k doc =
     (case doc of
        JObj d \<Rightarrow> k \<in> fst ` set d \<and> (\<forall>(f, v) \<in> set d. \<not> operator_object v)
      | _ \<Rightarrow> False)"










section \<open>Example data\<close>

text \<open>
  The job of the specification's scenario: \<^verbatim>\<open>last_run = "2024-01-01"\<close>, an interval of
  seven days. 2024-01-01 is day 738885 after 0001-01-01.
\<close>

definition example_fromisoformat :: "string \<Rightarrow> pydatetime option" where
  "example_fromisoformat s = (if s = ''2024-01-01'' then Some (Naive (738885 * DAY_US)) else None)"

definition example_meta :: pydict where
  "example_meta = [(''last_run'', JStr ''2024-01-01''), (''interval_days'', JInt 7)]"

definition example_update_doc :: json where
  "example_update_doc = JObj [(''id'', JStr ''1''), (''count'', JObj [(''set'', JInt 5)])]"

definition example_insert_doc :: json where
  "example_insert_doc = JObj [(''id'', JStr ''1''), (''count'', JInt 5)]"

definition example_files :: filesystem where
  "example_files =
     (\<lambda>p. if p = ''update.json'' then Some (Json (JArr [example_update_doc]))
          else if p = ''insert.json'' then Some (Json (JArr [example_insert_doc]))
          else if p = ''nokey.json'' then Some (Json (JArr [JObj [(''name'', JStr ''x'')]]))
          else if p = ''shaped.json''
            then Some (Json (JArr [JObj [(''id'', JStr ''1''), (''count'', JObj [(''inc'', JInt 5)])]]))
          else if p = ''object.json'' then Some (Json (JObj []))
          else None)"


definition records :: "world \<Rightarrow> run_record list" where
  "records w = (case history w of HistList h \<Rightarrow> h | _ \<Rightarrow> [])"


text \<open>
  The scenario of the specification: one job, due on 2024-01-10, whose script writes
  an update file of one document; the answer of the document store is left open.
\<close>

definition example_job :: pydict where
  "example_job =
     [(''script_file'', JStr ''fetch.py''), (''last_run'', JStr ''2024-01-01''),
      (''interval_days'', JInt 7), (''disabled'', JBool False),
      (''solr_update'',
         JArr [JObj [(''core_name'', JStr ''genome''), (''key'', JStr ''id''),
                     (''fields'', JArr [JStr ''count''])]])]"

definition example_schedule :: pydict where
  "example_schedule =
     [(''settings'', JObj [(''commit_solr'', JBool True)]),
      (''scripts'', JObj [(''flu'', JObj example_job)])]"

definition example_update_path :: string where
  "example_update_path = ''data/output/2024-01-10/flu/flu_update.json''"

definition example_env :: "http_result \<Rightarrow> env" where
  "example_env resp =
     \<lparr>clock = (\<lambda>i. 738894 * DAY_US),
      fromisoformat = example_fromisoformat,
      strftime_day = (\<lambda>t. ''2024-01-10''),
      run_script = (\<lambda>i cmd fs. (Exited 0, fs(example_update_path \<mapsto> Json (JArr [example_update_doc])))),
      http_post = (\<lambda>i core key ids. resp),
      run_commit_tool = (\<lambda>i mode core f. Exited 0)\<rparr>"

definition example_world :: world where
  "example_world =
     \<lparr>files = (\<lambda>p. if p = ''scripts/fetch.py'' then Some NotJson else None),
      schedule = example_schedule,
      schedule_file = Some (Json (JObj example_schedule)),
      history = HistAbsent, trace = [], tick = 0\<rparr>"



text \<open>
  An answer of the document store with no documents, and a job with a target in each
  direction whose two files are there.
\<close>

definition example_good_response :: http_result where
  "example_good_response = Response 200 (Json (JObj [(''response'', JObj [(''docs'', JArr [])])]))"






text \<open>
  The job of the scenario with \<^verbatim>\<open>force_run\<close> set, in a schedule with commits switched
  off, and the descriptor found in the schedule file after its run.
\<close>

definition example_forced_job :: pydict where
  "example_forced_job = (''force_run'', JBool True) # example_job"

definition example_forced_world :: world where
  "example_forced_world =
     example_world
       \<lparr>schedule := [(''settings'', JObj [(''commit_solr'', JBool False)]),
                     (''scripts'', JObj [(''flu'', JObj example_forced_job)])],
        schedule_file := Some (Json (JObj
                    [(''settings'', JObj [(''commit_solr'', JBool False)]),
                     (''scripts'', JObj [(''flu'', JObj example_forced_job)])]))\<rparr>"

definition example_after_forced_run :: pydict where
  "example_after_forced_run =
     [(''force_run'', JBool True), (''script_file'', JStr ''fetch.py''),
      (''last_run'', JStr ''2024-01-10''), (''interval_days'', JInt 7), (''disabled'', JBool False),
      (''solr_update'',
         JArr [JObj [(''core_name'', JStr ''genome''), (''key'', JStr ''id''),
                     (''fields'', JArr [JStr ''count''])]])]"

section \<open>Scheduling policy: proofs\<close>

lemma should_run_forced:
  "truthy (dict_get meta ''force_run'' (JBool False)) \<Longrightarrow> should_run parse now meta = Inr (True, Forced)"
  by (simp add: should_run_def)

lemma next_run_wellformed:
  assumes "map_of meta ''last_run'' = Some (JStr s)" "parse s = Some (Naive t)"
    "0 \<le> t" "t < MAX_US" "map_of meta ''interval_days'' = Some (JInt d)"
    "0 \<le> t + d * DAY_US" "t + d * DAY_US < MAX_US"
  shows "get_next_run_date parse meta = Inr (Naive (t + d * DAY_US))"
proof -
  have "- 999999999 \<le> d \<and> d \<le> 999999999"
    using assms(3,4,6,7) by (simp add: MAX_US_def DAY_US_def)
  then show ?thesis using assms by (simp add: get_next_run_date_def)
qed

text \<open>
  C2. \<open>should_run\<close> is a function of the descriptor and the current time alone.
  With \<^verbatim>\<open>force_run\<close> set it answers "run" (reason "Forced execution") whatever
  \<^verbatim>\<open>last_run\<close> and \<^verbatim>\<open>interval_days\<close> hold, or whether they are there at all. Without
  it, for a descriptor whose \<^verbatim>\<open>last_run\<close> is an ISO date \<open>t\<close> and whose
  \<^verbatim>\<open>interval_days\<close> is an integer \<open>d\<close> with \<open>t + d\<close> days a representable date, it answers
  "run" exactly when \<open>now \<ge> t + d\<close> days (equality runs) and reports that date. For
  every descriptor, it answers "run" iff \<^verbatim>\<open>force_run\<close> is set or the next run date
  exists and is not after \<open>now\<close>.
\<close>

theorem should_run_correct:
  "(truthy (dict_get meta ''force_run'' (JBool False)) \<longrightarrow> should_run parse now meta = Inr (True, Forced))
   \<and> (\<not> truthy (dict_get meta ''force_run'' (JBool False))
        \<and> map_of meta ''last_run'' = Some (JStr s) \<and> parse s = Some (Naive t)
        \<and> 0 \<le> t \<and> t < MAX_US
        \<and> map_of meta ''interval_days'' = Some (JInt d)
        \<and> 0 \<le> t + d * DAY_US \<and> t + d * DAY_US < MAX_US
        \<longrightarrow> should_run parse now meta = Inr (t + d * DAY_US \<le> now, NextRun (Naive (t + d * DAY_US))))
   \<and> ((\<exists>r. should_run parse now meta = Inr (True, r)) =
        (truthy (dict_get meta ''force_run'' (JBool False))
         \<or> (\<exists>n. get_next_run_date parse meta = Inr (Naive n) \<and> n \<le> now)))"
proof (intro conjI impI)
  show "should_run parse now meta = Inr (True, Forced)"
    if "truthy (dict_get meta ''force_run'' (JBool False))"
    using that by (rule should_run_forced)
next
  assume a: "\<not> truthy (dict_get meta ''force_run'' (JBool False))
        \<and> map_of meta ''last_run'' = Some (JStr s) \<and> parse s = Some (Naive t)
        \<and> 0 \<le> t \<and> t < MAX_US
        \<and> map_of meta ''interval_days'' = Some (JInt d)
        \<and> 0 \<le> t + d * DAY_US \<and> t + d * DAY_US < MAX_US"
  then have "get_next_run_date parse meta = Inr (Naive (t + d * DAY_US))"
    using next_run_wellformed[of meta s parse t d] by blast
  with a show "should_run parse now meta = Inr (t + d * DAY_US \<le> now, NextRun (Naive (t + d * DAY_US)))"
    by (simp add: should_run_def)
next
  show "(\<exists>r. should_run parse now meta = Inr (True, r)) =
        (truthy (dict_get meta ''force_run'' (JBool False))
         \<or> (\<exists>n. get_next_run_date parse meta = Inr (Naive n) \<and> n \<le> now))"
  proof (cases "truthy (dict_get meta ''force_run'' (JBool False))")
    case True
    then show ?thesis by (simp add: should_run_def)
  next
    case False
    show ?thesis
    proof (cases "get_next_run_date parse meta")
      case (Inl e)
      with False show ?thesis by (simp add: should_run_def)
    next
      case (Inr dt)
      with False show ?thesis by (cases dt) (simp_all add: should_run_def)
    qed
  qed
qed

theorem should_run_correct_witness:
  "truthy (dict_get [(''force_run'', JBool True)] ''force_run'' (JBool False))
   \<and> should_run example_fromisoformat 0 [(''force_run'', JBool True)] = Inr (True, Forced)
   \<and> \<not> truthy (dict_get example_meta ''force_run'' (JBool False))
   \<and> map_of example_meta ''last_run'' = Some (JStr ''2024-01-01'')
   \<and> example_fromisoformat ''2024-01-01'' = Some (Naive (738885 * DAY_US))
   \<and> map_of example_meta ''interval_days'' = Some (JInt 7)
   \<and> should_run example_fromisoformat (738892 * DAY_US) example_meta
       = Inr (True, NextRun (Naive (738892 * DAY_US)))
   \<and> should_run example_fromisoformat (738892 * DAY_US - 1) example_meta
       = Inr (False, NextRun (Naive (738892 * DAY_US)))"
proof -
  have f: "truthy (dict_get [(''force_run'', JBool True)] ''force_run'' (JBool False))"
    by (simp add: dict_get_def)
  have h: "\<not> truthy (dict_get example_meta ''force_run'' (JBool False))
        \<and> map_of example_meta ''last_run'' = Some (JStr ''2024-01-01'')
        \<and> example_fromisoformat ''2024-01-01'' = Some (Naive (738885 * DAY_US))
        \<and> 0 \<le> 738885 * DAY_US \<and> 738885 * DAY_US < MAX_US
        \<and> map_of example_meta ''interval_days'' = Some (JInt 7)
        \<and> 0 \<le> 738885 * DAY_US + 7 * DAY_US \<and> 738885 * DAY_US + 7 * DAY_US < MAX_US"
    by (simp add: dict_get_def example_meta_def example_fromisoformat_def DAY_US_def MAX_US_def)
  have e: "738885 * DAY_US + 7 * DAY_US = 738892 * DAY_US" by (simp add: DAY_US_def)
  have l: "\<not> 738892 * DAY_US \<le> 738892 * DAY_US - 1" by simp
  from f should_run_correct [of "[(''force_run'', JBool True)]" example_fromisoformat 0]
  have 1: "should_run example_fromisoformat 0 [(''force_run'', JBool True)] = Inr (True, Forced)"
    by blast
  from h should_run_correct [of example_meta example_fromisoformat "738892 * DAY_US"
      "''2024-01-01''" "738885 * DAY_US" 7]
  have 2: "should_run example_fromisoformat (738892 * DAY_US) example_meta
             = Inr (True, NextRun (Naive (738892 * DAY_US)))"
    unfolding e by simp
  from h should_run_correct [of example_meta example_fromisoformat "738892 * DAY_US - 1"
      "''2024-01-01''" "738885 * DAY_US" 7]
  have 3: "should_run example_fromisoformat (738892 * DAY_US - 1) example_meta
             = Inr (False, NextRun (Naive (738892 * DAY_US)))"
    unfolding e using l by simp
  from f h 1 2 3 show ?thesis by simp
qed

section \<open>Document validator: proofs\<close>

lemma key_present_iff: "(map_of d k \<noteq> None) = (k \<in> fst ` set d)"
  by (simp add: map_of_eq_None_iff)

lemma has_operator_iff: "has_operator d = (\<exists>op \<in> set UPDATE_OPS. op \<in> fst ` set d)"
  by (simp add: has_operator_def list_ex_iff map_of_eq_None_iff)

lemma py_in_strs: "py_in f (JArr (map JStr allowed)) = Inr (f \<in> set allowed)"
  by (simp add: image_iff)

lemma update_fields_step:
  "update_fields (JArr (map JStr allowed)) (JStr k) ((f, v) # rest) =
     (if f = k then update_fields (JArr (map JStr allowed)) (JStr k) rest
      else if f \<notin> set allowed then Inl (UnexpectedField f)
      else if operator_object v then update_fields (JArr (map JStr allowed)) (JStr k) rest
      else Inl (InvalidUpdateShape f))"
  by (cases v) (simp_all del: py_in.simps add: py_in_strs operator_object_def has_operator_iff)

lemma update_fields_ok:
  "(update_fields (JArr (map JStr allowed)) (JStr k) d = Inr ()) =
   (\<forall>(f, v) \<in> set d. f \<noteq> k \<longrightarrow> f \<in> set allowed \<and> operator_object v)"
proof (induction d)
  case Nil
  show ?case by simp
next
  case (Cons fv d)
  obtain f v where fv: "fv = (f, v)" by (cases fv)
  show ?case unfolding fv using Cons
    by (simp del: update_fields.simps add: update_fields_step)
qed

lemma key_in_doc_str: "key_in_doc (JStr k) d = Inr (k \<in> fst ` set d)"
  by (cases "map_of d k") (auto simp: map_of_eq_None_iff dest: map_of_SomeD intro: rev_image_eqI)

lemma update_docs_step:
  "update_docs a (JStr k) (JObj d # docs) =
     (if k \<notin> fst ` set d then Inl MissingKey
      else case update_fields a (JStr k) d of Inl e \<Rightarrow> Inl e | Inr u \<Rightarrow> update_docs a (JStr k) docs)"
  by (simp del: key_in_doc.simps add: key_in_doc_str)

lemma update_docs_ok:
  "(update_docs (JArr (map JStr allowed)) (JStr k) docs = Inr ()) =
   (\<forall>doc \<in> set docs. update_doc_ok allowed k doc)"
proof (induction docs)
  case Nil
  show ?case by simp
next
  case (Cons doc docs)
  show ?case
  proof (cases doc)
    case (JObj d)
    have "update_doc_ok allowed k doc =
            (k \<in> fst ` set d \<and> update_fields (JArr (map JStr allowed)) (JStr k) d = Inr ())"
      using JObj by (simp add: update_doc_ok_def update_fields_ok)
    with JObj Cons show ?thesis
      by (simp del: update_docs.simps add: update_docs_step split: sum.splits)
  qed (simp_all add: update_doc_ok_def)
qed

lemma validate_json_array: "fs p = Some (Json (JArr docs)) \<Longrightarrow> validate_json fs p = Inr docs"
  by (simp add: validate_json_def)

lemma validate_json_other:
  "\<forall>docs. fs p \<noteq> Some (Json (JArr docs)) \<Longrightarrow> validate_json fs p = Inl InvalidFormat"
  by (simp add: validate_json_def split: option.splits filedata.splits json.splits)

text \<open>
  C8. With a string as unique key and a list of strings as whitelist, update
  validation succeeds iff the file holds a JSON array and every element of it is an
  object that contains the unique key, whose every other field is in the whitelist
  and has an operator object as value. When it succeeds it returns the array parsed
  from the file. A file that holds no JSON array fails with \<open>InvalidFormat\<close>.
\<close>

theorem validate_solr_update_file_correct:
  "((\<exists>r. validate_solr_update_file fs p (JArr (map JStr allowed)) (JStr k) = Inr r) =
      (\<exists>docs. fs p = Some (Json (JArr docs)) \<and> (\<forall>doc \<in> set docs. update_doc_ok allowed k doc)))
   \<and> (\<forall>r. validate_solr_update_file fs p (JArr (map JStr allowed)) (JStr k) = Inr r
          \<longrightarrow> fs p = Some (Json (JArr r)))
   \<and> ((\<forall>docs. fs p \<noteq> Some (Json (JArr docs)))
          \<longrightarrow> validate_solr_update_file fs p (JArr (map JStr allowed)) (JStr k) = Inl InvalidFormat)"
proof (cases "\<exists>docs. fs p = Some (Json (JArr docs))")
  case True
  then obtain docs where d: "fs p = Some (Json (JArr docs))" by blast
  have v: "validate_solr_update_file fs p (JArr (map JStr allowed)) (JStr k) =
             (if \<forall>doc \<in> set docs. update_doc_ok allowed k doc then Inr docs
              else Inl (projl (update_docs (JArr (map JStr allowed)) (JStr k) docs)))"
    using update_docs_ok[of allowed k docs]
    by (cases "update_docs (JArr (map JStr allowed)) (JStr k) docs")
       (simp_all add: validate_solr_update_file_def validate_json_array[of fs p docs] d)
  show ?thesis unfolding v using d by simp
next
  case False
  then have "validate_solr_update_file fs p (JArr (map JStr allowed)) (JStr k) = Inl InvalidFormat"
    by (simp add: validate_solr_update_file_def validate_json_other)
  with False show ?thesis by simp
qed

theorem validate_solr_update_file_correct_witness:
  "(\<exists>docs. example_files ''update.json'' = Some (Json (JArr docs))
       \<and> (\<forall>doc \<in> set docs. update_doc_ok [''count''] ''id'' doc))
   \<and> validate_solr_update_file example_files ''update.json'' (JArr (map JStr [''count''])) (JStr ''id'')
       = Inr [example_update_doc]
   \<and> (\<forall>docs. example_files ''object.json'' \<noteq> Some (Json (JArr docs)))
   \<and> validate_solr_update_file example_files ''object.json'' (JArr (map JStr [''count''])) (JStr ''id'')
       = Inl InvalidFormat"
proof -
  have f: "example_files ''update.json'' = Some (Json (JArr [example_update_doc]))"
    by (simp add: example_files_def)
  have ok: "update_doc_ok [''count''] ''id'' example_update_doc"
    by (simp add: update_doc_ok_def example_update_doc_def operator_object_def UPDATE_OPS_def)
  have h: "\<exists>docs. example_files ''update.json'' = Some (Json (JArr docs))
       \<and> (\<forall>doc \<in> set docs. update_doc_ok [''count''] ''id'' doc)"
    using f ok by simp
  have n: "\<forall>docs. example_files ''object.json'' \<noteq> Some (Json (JArr docs))"
    by (simp add: example_files_def)
  from h validate_solr_update_file_correct [of example_files "''update.json''" "[''count'']" "''id''"]
  obtain r where r: "validate_solr_update_file example_files ''update.json''
                        (JArr (map JStr [''count''])) (JStr ''id'') = Inr r"
    by blast
  with validate_solr_update_file_correct [of example_files "''update.json''" "[''count'']" "''id''"]
  have "example_files ''update.json'' = Some (Json (JArr r))" by blast
  with f r have 1: "validate_solr_update_file example_files ''update.json''
                        (JArr (map JStr [''count''])) (JStr ''id'') = Inr [example_update_doc]"
    by simp
  from n validate_solr_update_file_correct [of example_files "''object.json''" "[''count'']" "''id''"]
  have 2: "validate_solr_update_file example_files ''object.json''
             (JArr (map JStr [''count''])) (JStr ''id'') = Inl InvalidFormat"
    by blast
  from h 1 n 2 show ?thesis by blast
qed

lemma insert_fields_step:
  "insert_fields ((f, v) # rest) =
     (if operator_object v then Inl (InvalidInsertShape f) else insert_fields rest)"
  by (cases v) (simp_all add: operator_object_def has_operator_iff)

lemma insert_fields_ok:
  "(insert_fields d = Inr ()) = (\<forall>(f, v) \<in> set d. \<not> operator_object v)"
proof (induction d)
  case Nil
  show ?case by simp
next
  case (Cons fv d)
  obtain f v where fv: "fv = (f, v)" by (cases fv)
  show ?case unfolding fv using Cons
    by (simp del: insert_fields.simps add: insert_fields_step)
qed

lemma insert_fields_first:
  "\<forall>(g, v) \<in> set before. \<not> operator_object v \<Longrightarrow> operator_object x \<Longrightarrow>
   insert_fields (before @ (f, x) # after) = Inl (InvalidInsertShape f)"
proof (induction before)
  case Nil
  then show ?case by (simp del: insert_fields.simps add: insert_fields_step)
next
  case (Cons gv before)
  obtain g v where gv: "gv = (g, v)" by (cases gv)
  show ?case using Cons unfolding gv
    by (simp del: insert_fields.simps add: insert_fields_step)
qed

lemma insert_docs_step:
  "insert_docs (JStr k) (JObj d # docs) =
     (if k \<notin> fst ` set d then Inl MissingKey
      else case insert_fields d of Inl e \<Rightarrow> Inl e | Inr u \<Rightarrow> insert_docs (JStr k) docs)"
  by (simp del: key_in_doc.simps add: key_in_doc_str)

lemma insert_docs_ok:
  "(insert_docs (JStr k) docs = Inr ()) = (\<forall>doc \<in> set docs. insert_doc_ok k doc)"
proof (induction docs)
  case Nil
  show ?case by simp
next
  case (Cons doc docs)
  show ?case
  proof (cases doc)
    case (JObj d)
    have "insert_doc_ok k doc = (k \<in> fst ` set d \<and> insert_fields d = Inr ())"
      using JObj by (simp add: insert_doc_ok_def insert_fields_ok)
    with JObj Cons show ?thesis
      by (simp del: insert_docs.simps add: insert_docs_step split: sum.splits)
  qed (simp_all add: insert_doc_ok_def)
qed

lemma insert_docs_skip:
  "\<forall>doc \<in> set pre. insert_doc_ok k doc \<Longrightarrow>
   insert_docs (JStr k) (pre @ rest) = insert_docs (JStr k) rest"
proof (induction pre)
  case Nil
  show ?case by simp
next
  case (Cons doc pre)
  then obtain d where d: "doc = JObj d" "k \<in> fst ` set d" "insert_fields d = Inr ()"
    by (cases doc) (auto simp: insert_doc_ok_def insert_fields_ok)
  with Cons show ?case
    by (simp del: insert_docs.simps add: insert_docs_step)
qed

text \<open>
  C9. With a string as unique key, insert validation succeeds iff the file holds a
  JSON array and every element of it is an object that contains the unique key and
  has no field whose value is an operator object. The first offending document
  decides the error: an object without the unique key gives \<open>MissingKey\<close>; an object
  with the key gives \<open>InvalidInsertShape\<close> for its first field that holds an operator
  object.
\<close>

theorem validate_solr_insert_file_correct:
  "((validate_solr_insert_file fs p (JStr k) = Inr ()) =
      (\<exists>docs. fs p = Some (Json (JArr docs)) \<and> (\<forall>doc \<in> set docs. insert_doc_ok k doc)))
   \<and> (fs p = Some (Json (JArr (pre @ JObj d # post))) \<and> (\<forall>doc \<in> set pre. insert_doc_ok k doc)
        \<and> k \<notin> fst ` set d
        \<longrightarrow> validate_solr_insert_file fs p (JStr k) = Inl MissingKey)
   \<and> (fs p = Some (Json (JArr (pre @ JObj (before @ (f, x) # after) # post)))
        \<and> (\<forall>doc \<in> set pre. insert_doc_ok k doc)
        \<and> k \<in> fst ` set (before @ (f, x) # after)
        \<and> (\<forall>(g, v) \<in> set before. \<not> operator_object v) \<and> operator_object x
        \<longrightarrow> validate_solr_insert_file fs p (JStr k) = Inl (InvalidInsertShape f))"
proof (intro conjI impI)
  show "(validate_solr_insert_file fs p (JStr k) = Inr ()) =
      (\<exists>docs. fs p = Some (Json (JArr docs)) \<and> (\<forall>doc \<in> set docs. insert_doc_ok k doc))"
  proof (cases "\<exists>docs. fs p = Some (Json (JArr docs))")
    case True
    then obtain docs where d: "fs p = Some (Json (JArr docs))" by blast
    then show ?thesis
      by (simp add: validate_solr_insert_file_def validate_json_array[of fs p docs] insert_docs_ok)
  next
    case False
    then show ?thesis by (simp add: validate_solr_insert_file_def validate_json_other)
  qed
next
  assume a: "fs p = Some (Json (JArr (pre @ JObj d # post))) \<and>
             (\<forall>doc \<in> set pre. insert_doc_ok k doc) \<and> k \<notin> fst ` set d"
  then have "validate_json fs p = Inr (pre @ JObj d # post)" by (simp add: validate_json_array)
  with a show "validate_solr_insert_file fs p (JStr k) = Inl MissingKey"
    by (simp del: insert_docs.simps add: validate_solr_insert_file_def insert_docs_skip insert_docs_step)
next
  assume a: "fs p = Some (Json (JArr (pre @ JObj (before @ (f, x) # after) # post)))
        \<and> (\<forall>doc \<in> set pre. insert_doc_ok k doc)
        \<and> k \<in> fst ` set (before @ (f, x) # after)
        \<and> (\<forall>(g, v) \<in> set before. \<not> operator_object v) \<and> operator_object x"
  then have "validate_json fs p = Inr (pre @ JObj (before @ (f, x) # after) # post)"
    by (simp add: validate_json_array)
  moreover have "insert_fields (before @ (f, x) # after) = Inl (InvalidInsertShape f)"
    using a insert_fields_first[of before x f after] by blast
  ultimately show "validate_solr_insert_file fs p (JStr k) = Inl (InvalidInsertShape f)"
    using a
    by (simp del: insert_docs.simps insert_fields.simps
          add: validate_solr_insert_file_def insert_docs_skip insert_docs_step)
qed

theorem validate_solr_insert_file_correct_witness:
  "(\<exists>docs. example_files ''insert.json'' = Some (Json (JArr docs))
       \<and> (\<forall>doc \<in> set docs. insert_doc_ok ''id'' doc))
   \<and> validate_solr_insert_file example_files ''insert.json'' (JStr ''id'') = Inr ()
   \<and> validate_solr_insert_file example_files ''nokey.json'' (JStr ''id'') = Inl MissingKey
   \<and> validate_solr_insert_file example_files ''shaped.json'' (JStr ''id'')
       = Inl (InvalidInsertShape ''count'')"
proof -
  have h: "\<exists>docs. example_files ''insert.json'' = Some (Json (JArr docs))
       \<and> (\<forall>doc \<in> set docs. insert_doc_ok ''id'' doc)"
    by (simp add: example_files_def example_insert_doc_def insert_doc_ok_def operator_object_def)
  have k: "example_files ''nokey.json'' = Some (Json (JArr ([] @ JObj [(''name'', JStr ''x'')] # [])))
        \<and> (\<forall>doc \<in> set []. insert_doc_ok ''id'' doc) \<and> ''id'' \<notin> fst ` set [(''name'', JStr ''x'')]"
    by (simp add: example_files_def)
  have s: "example_files ''shaped.json''
          = Some (Json (JArr ([] @ JObj ([(''id'', JStr ''1'')] @ (''count'', JObj [(''inc'', JInt 5)]) # []) # [])))
        \<and> (\<forall>doc \<in> set []. insert_doc_ok ''id'' doc)
        \<and> ''id'' \<in> fst ` set ([(''id'', JStr ''1'')] @ (''count'', JObj [(''inc'', JInt 5)]) # [])
        \<and> (\<forall>(g, v) \<in> set [(''id'', JStr ''1'')]. \<not> operator_object v)
        \<and> operator_object (JObj [(''inc'', JInt 5)])"
    by (simp add: example_files_def operator_object_def UPDATE_OPS_def)
  from h validate_solr_insert_file_correct [of example_files "''insert.json''" "''id''"]
  have 1: "validate_solr_insert_file example_files ''insert.json'' (JStr ''id'') = Inr ()"
    by blast
  from k validate_solr_insert_file_correct
    [of example_files "''nokey.json''" "''id''" "[]" "[(''name'', JStr ''x'')]" "[]"]
  have 2: "validate_solr_insert_file example_files ''nokey.json'' (JStr ''id'') = Inl MissingKey"
    by blast
  from s validate_solr_insert_file_correct
    [of example_files "''shaped.json''" "''id''" "[]" _ "[]" "[(''id'', JStr ''1'')]"
        "''count''" "JObj [(''inc'', JInt 5)]" "[]"]
  have 3: "validate_solr_insert_file example_files ''shaped.json'' (JStr ''id'')
             = Inl (InvalidInsertShape ''count'')"
    by blast
  from h 1 2 3 show ?thesis by blast
qed

section \<open>Orchestrator: what each phase leaves alone and what it calls\<close>

lemma bump_simps [simp]:
  "files (bump w) = files w" "schedule (bump w) = schedule w"
  "schedule_file (bump w) = schedule_file w" "history (bump w) = history w"
  "trace (bump w) = trace w" "tick (bump w) = Suc (tick w)"
  by (simp_all add: bump_def)

lemma emit_simps [simp]:
  "files (emit ev w) = files w" "schedule (emit ev w) = schedule w"
  "schedule_file (emit ev w) = schedule_file w" "history (emit ev w) = history w"
  "trace (emit ev w) = trace w @ [ev]" "tick (emit ev w) = tick w"
  by (simp_all add: emit_def)

























section \<open>The scenario, evaluated\<close>

lemmas example_defs =
  process_job_def run_job_def try_block_def after_run_def finish_job_def check_insert_def
  check_update_and_backup_def first_target_def target_key_def commit_phase_def commit_file_def
  commit_solr_changes_def update_run_date_def save_schedule_def
  validate_solr_update_file_def validate_solr_insert_file_def validate_json_def
  backup_solr_docs_def append_run_history_def make_record_def handle_def initial_vars_def
  execute_script_def should_run_def get_next_run_date_def dict_get_def
  example_env_def example_world_def example_job_def example_schedule_def
  example_fromisoformat_def example_update_doc_def example_update_path_def
  Let_def path_join_def SCRIPTS_DIR_def OUTPUT_BASE_DIR_def BACKUP_DIR_def
  create_output_dir_def create_backup_dir_def bump_def emit_def DAY_US_def MAX_US_def
  has_operator_def UPDATE_OPS_def records_def


lemma example_good_backup:
  "\<exists>w'. process_job (example_env (Response 200 (Json (JObj [(''response'', JObj [(''docs'', JArr [])])]))))
           (JObj [(''commit_solr'', JBool True)])
           ''flu'' (JObj example_job) example_world = Inr w'
     \<and> trace w' = [EvRun [''scripts/fetch.py'', ''--date'', ''2024-01-01'', ''--work_dir'',
                        ''data/output/2024-01-10/flu'', ''--update_file'', example_update_path] (Exited 0),
                   EvPost (JStr ''genome'') (JStr ''id'') [''1'']
                     (Response 200 (Json (JObj [(''response'', JObj [(''docs'', JArr [])])]))),
                   EvBackupSaved ''backup/2024-01-10/flu/flu_backup.json'' (JArr []),
                   EvCommit ''update'' ''genome'' example_update_path (Exited 0),
                   EvSaveSchedule
                     [(''settings'', JObj [(''commit_solr'', JBool True)]),
                      (''scripts'', JObj [(''flu'', JObj (dict_set example_job ''last_run'' (JStr ''2024-01-10'')))])]]
     \<and> records w' = [\<lparr>rr_script = ''flu'', rr_run_time = 738894 * DAY_US, rr_status = Success,
                       rr_reason = NextRun (Naive (738892 * DAY_US)), rr_insert_file = None,
                       rr_update_file = Some example_update_path,
                       rr_backup_file = Some ''backup/2024-01-10/flu/flu_backup.json''\<rparr>]"
  by (simp add: example_defs)

section \<open>Backup before update\<close>



section \<open>Run history\<close>





section \<open>Failure of one job\<close>

lemma map_of_dict_set: "map_of (dict_set d k v) k' = (if k' = k then Some v else map_of d k')"
  by (induction d) auto













section \<open>Commit gate\<close>













section \<open>Job runner\<close>





section \<open>Force-run\<close>

lemma update_run_date_keeps_force_run:
  assumes "update_run_date n ts w = Inr w'"
  shows "\<exists>scripts m scripts' m'.
           map_of (schedule w) ''scripts'' = Some (JObj scripts) \<and> map_of scripts n = Some (JObj m)
         \<and> map_of (schedule w') ''scripts'' = Some (JObj scripts') \<and> map_of scripts' n = Some (JObj m')
         \<and> map_of m' ''force_run'' = map_of m ''force_run''
         \<and> schedule_file w' = Some (Json (JObj (schedule w')))"
proof -
  from assms obtain scripts m where
    s: "map_of (schedule w) ''scripts'' = Some (JObj scripts)" "map_of scripts n = Some (JObj m)"
    by (auto simp: update_run_date_def split: option.splits json.splits)
  with assms have "schedule w' = dict_set (schedule w) ''scripts''
      (JObj (dict_set scripts n (JObj (dict_set m ''last_run'' (JStr ts)))))"
    "schedule_file w' = Some (Json (JObj (schedule w')))"
    by (auto simp: update_run_date_def save_schedule_def Let_def)
  with s show ?thesis by (simp add: map_of_dict_set)
qed

text \<open>
  C6. The claim is that \<^verbatim>\<open>force_run\<close> is spent by a successful run. In the code
  \<open>update_run_date\<close> writes \<^verbatim>\<open>last_run\<close> only: its docstring says "and reset force_run",
  the line that would do it is a comment. In the scenario with \<^verbatim>\<open>force_run\<close> set the run
  succeeds with reason "Forced execution", the descriptor in the schedule file still
  has \<^verbatim>\<open>force_run\<close> true, and \<open>should_run\<close> on it answers "run", forced, again at once.
\<close>

theorem force_run_is_not_reset:
  "\<exists>w' r. process_job (example_env example_good_response) (JObj [(''commit_solr'', JBool False)])
             ''flu'' (JObj example_forced_job) example_forced_world = Inr w'
     \<and> records w' = [r] \<and> rr_status r = Success \<and> rr_reason r = Forced
     \<and> schedule_file w' = Some (Json (JObj
           [(''settings'', JObj [(''commit_solr'', JBool False)]),
            (''scripts'', JObj [(''flu'', JObj example_after_forced_run)])]))
     \<and> map_of example_after_forced_run ''force_run'' = Some (JBool True)
     \<and> should_run example_fromisoformat (738894 * DAY_US) example_after_forced_run = Inr (True, Forced)"
  by (simp add: example_defs example_good_response_def example_forced_job_def
        example_forced_world_def example_after_forced_run_def)

section \<open>Update target without a whitelist\<close>






end
